theory Spec2Isabelle
  imports Complex_Main
begin

section \<open>Python strings\<close>

text \<open>
  A Python \<open>str\<close> is modelled as a HOL \<open>string\<close>; one \<open>char\<close> stands for one code
  point in the range 0..255, and the character classes below are the ones Python's
  \<open>str\<close> methods and the \<open>re\<close> module use on that range.
\<close>

definition code :: "char \<Rightarrow> nat" where
  "code c = of_char c"

definition isspace :: "char \<Rightarrow> bool" where
  "isspace c = ((9 \<le> code c \<and> code c \<le> 13) \<or> (28 \<le> code c \<and> code c \<le> 32)
                \<or> code c = 133 \<or> code c = 160)"

definition is_ascii_upper :: "char \<Rightarrow> bool" where
  "is_ascii_upper c = (65 \<le> code c \<and> code c \<le> 90)"

definition is_ascii_lower :: "char \<Rightarrow> bool" where
  "is_ascii_lower c = (97 \<le> code c \<and> code c \<le> 122)"

definition is_ascii_letter :: "char \<Rightarrow> bool" where
  "is_ascii_letter c = (is_ascii_upper c \<or> is_ascii_lower c)"

definition isupper_char :: "char \<Rightarrow> bool" where
  "isupper_char c = (is_ascii_upper c \<or> (192 \<le> code c \<and> code c \<le> 222 \<and> code c \<noteq> 215))"

definition isalpha_char :: "char \<Rightarrow> bool" where
  "isalpha_char c = (is_ascii_letter c \<or> code c = 170 \<or> code c = 181 \<or> code c = 186
                     \<or> (192 \<le> code c \<and> code c \<noteq> 215 \<and> code c \<noteq> 247))"


definition is_word_char :: "char \<Rightarrow> bool" where
  \<comment> \<open>the class \<open>\w\<close> of \<open>re\<close>: alphanumeric or underscore\<close>
  "is_word_char c = (isalpha_char c \<or> (48 \<le> code c \<and> code c \<le> 57) \<or> code c = 95
                     \<or> code c = 178 \<or> code c = 179 \<or> code c = 185
                     \<or> (188 \<le> code c \<and> code c \<le> 190))"

definition lower_char :: "char \<Rightarrow> char" where
  "lower_char c = (if isupper_char c then char_of (code c + 32) else c)"

definition upper_char :: "char \<Rightarrow> char" where
  \<comment> \<open>only ever applied to tokens matched by \<open>[a-zA-Z]{3,}\<close>\<close>
  "upper_char c = (if is_ascii_lower c then char_of (code c - 32) else c)"

definition str_lower :: "string \<Rightarrow> string" where
  "str_lower s = map lower_char s"

definition str_upper :: "string \<Rightarrow> string" where
  "str_upper s = map upper_char s"

fun str_title :: "string \<Rightarrow> string" where
  \<comment> \<open>\<open>str.title()\<close> on a token of ASCII letters: one word, first letter capitalised\<close>
  "str_title [] = []"
| "str_title (c # cs) = upper_char c # map lower_char cs"

definition str_isalpha :: "string \<Rightarrow> bool" where
  "str_isalpha s = (s \<noteq> [] \<and> list_all isalpha_char s)"

definition str_strip :: "string \<Rightarrow> string" where
  "str_strip s = rev (dropWhile isspace (rev (dropWhile isspace s)))"

fun runs :: "(char \<Rightarrow> bool) \<Rightarrow> string \<Rightarrow> string \<Rightarrow> string list" where
  \<comment> \<open>the maximal runs of characters satisfying \<open>P\<close>, left to right\<close>
  "runs P cur [] = (if cur = [] then [] else [rev cur])"
| "runs P cur (c # cs) =
     (if P c then runs P (c # cur) cs
      else if cur = [] then runs P [] cs else rev cur # runs P [] cs)"

definition str_split :: "string \<Rightarrow> string list" where
  \<comment> \<open>\<open>s.split()\<close>: the maximal runs of non-whitespace\<close>
  "str_split s = runs (\<lambda>c. \<not> isspace c) [] s"

definition findall_words :: "string \<Rightarrow> string list" where
  \<comment> \<open>\<open>re.findall(r'\b\w+\b', s)\<close>: the maximal runs of word characters\<close>
  "findall_words s = runs is_word_char [] s"

definition findall_letters3 :: "string \<Rightarrow> string list" where
  \<comment> \<open>\<open>re.findall(r'\b[a-zA-Z]{3,}\b', s)\<close>: a match starts and ends at a word boundary,
      so it is a whole run of word characters, all of them ASCII letters, at least 3\<close>
  "findall_letters3 s =
     filter (\<lambda>w. list_all is_ascii_letter w \<and> 3 \<le> length w) (runs is_word_char [] s)"

fun split_on :: "char \<Rightarrow> string \<Rightarrow> string \<Rightarrow> string list" where
  "split_on sep cur [] = [rev cur]"
| "split_on sep cur (c # cs) =
     (if c = sep then rev cur # split_on sep [] cs else split_on sep (c # cur) cs)"

fun str_join :: "string \<Rightarrow> string list \<Rightarrow> string" where
  "str_join sep [] = []"
| "str_join sep [x] = x"
| "str_join sep (x # y # ys) = x @ sep @ str_join sep (y # ys)"

definition endswith :: "string \<Rightarrow> string \<Rightarrow> bool" where
  "endswith s suf = (take (length suf) (rev s) = rev suf)"

fun str_contains :: "string \<Rightarrow> string \<Rightarrow> bool" where
  \<comment> \<open>\<open>sub in s\<close>\<close>
  "str_contains sub [] = (sub = [])"
| "str_contains sub (c # cs) = (take (length sub) (c # cs) = sub \<or> str_contains sub cs)"

definition digit_char :: "nat \<Rightarrow> char" where
  "digit_char d = char_of (48 + d)"

function str_nat :: "nat \<Rightarrow> string" where
  "str_nat n = (if n < 10 then [digit_char n] else str_nat (n div 10) @ [digit_char (n mod 10)])"
  by pat_completeness auto
termination
  by (relation "measure id") auto

declare str_nat.simps [simp del]

definition str_int :: "int \<Rightarrow> string" where
  "str_int i = (if i < 0 then CHR ''-'' # str_nat (nat (- i)) else str_nat (nat i))"

section \<open>Decoded JSON values\<close>

text \<open>
  What \<open>json.loads\<close> returns. A float is carried as the text Python prints for it; a
  dict is an association list in which the first binding of a key is the dict's value
  for that key.
\<close>

datatype json =
    JNull
  | JBool bool
  | JInt int
  | JFloat string
  | JStr string
  | JList "json list"
  | JDict "(string \<times> json) list"

definition hex_digit :: "nat \<Rightarrow> char" where
  "hex_digit d = (if d < 10 then char_of (48 + d) else char_of (87 + d))"

definition isprintable :: "char \<Rightarrow> bool" where
  "isprintable c = ((32 \<le> code c \<and> code c \<le> 126) \<or> (161 \<le> code c \<and> code c \<noteq> 173))"

definition repr_char :: "char \<Rightarrow> char \<Rightarrow> string" where
  "repr_char q c =
     (if c = q \<or> c = CHR 0x5C then [CHR 0x5C, c]
      else if code c = 9 then [CHR 0x5C, CHR ''t'']
      else if code c = 10 then [CHR 0x5C, CHR ''n'']
      else if code c = 13 then [CHR 0x5C, CHR ''r'']
      else if isprintable c then [c]
      else [CHR 0x5C, CHR ''x'', hex_digit (code c div 16), hex_digit (code c mod 16)])"

definition repr_str :: "string \<Rightarrow> string" where
  "repr_str s =
     (let q = (if CHR 0x27 \<in> set s \<and> CHR 0x22 \<notin> set s then CHR 0x22 else CHR 0x27)
      in q # concat (map (repr_char q) s) @ [q])"

fun py_repr :: "json \<Rightarrow> string" where
  "py_repr JNull = ''None''"
| "py_repr (JBool b) = (if b then ''True'' else ''False'')"
| "py_repr (JInt i) = str_int i"
| "py_repr (JFloat r) = r"
| "py_repr (JStr s) = repr_str s"
| "py_repr (JList xs) = ''['' @ str_join '', '' (map py_repr xs) @ '']''"
| "py_repr (JDict kvs) =
     ''{'' @ str_join '', '' (map (\<lambda>kv. repr_str (fst kv) @ '': '' @ py_repr (snd kv)) kvs) @ ''}''"

definition py_str :: "json \<Rightarrow> string" where
  \<comment> \<open>\<open>str(v)\<close>\<close>
  "py_str v = (case v of JStr s \<Rightarrow> s | _ \<Rightarrow> py_repr v)"

definition dict_get :: "(string \<times> json) list \<Rightarrow> string \<Rightarrow> json \<Rightarrow> json" where
  \<comment> \<open>\<open>d.get(key, default)\<close>\<close>
  "dict_get kvs k d = (case map_of kvs k of None \<Rightarrow> d | Some v \<Rightarrow> v)"

section \<open>llm\_service.py\<close>

datatype exn =
    AttributeError
  | TypeError
  | LookupError
  | JSONDecodeError
  | Exception string

record metadata =
  title :: "string option"
  topics :: "string list"
  sentiment :: string

subsection \<open>The provider and \<open>_make_api_call\<close>\<close>

text \<open>
  The provider is external. One attempt either runs into the \<open>asyncio.wait_for\<close>
  timeout, raises some other exception (this includes a reply whose content cannot be
  read), or yields the reply's content. A client maps the prompt and the attempt index
  to that outcome; \<open>None\<close> is the absent client (no API key). Of a prompt only its
  kind and the embedded text are kept.
\<close>

datatype outcome = TimedOut | Raised exn | Content string

datatype prompt = SummaryPrompt string | MetadataPrompt string

type_synonym client = "prompt \<Rightarrow> nat \<Rightarrow> outcome"

datatype event = Attempt nat | Sleep nat

definition max_retries :: nat where
  "max_retries = 3"

function api_loop :: "(nat \<Rightarrow> outcome) \<Rightarrow> nat \<Rightarrow> event list \<Rightarrow> (exn + string option) \<times> event list" where
  "api_loop call attempt tr =
     (if attempt < max_retries then
        (case call attempt of
           Content s \<Rightarrow> (Inr (Some (str_strip s)), tr @ [Attempt attempt])
         | TimedOut \<Rightarrow>
             if attempt = max_retries - 1
             then (Inl (Exception ''API call timed out after all retries''), tr @ [Attempt attempt])
             else api_loop call (Suc attempt) (tr @ [Attempt attempt])
         | Raised e \<Rightarrow>
             if attempt = max_retries - 1
             then (Inl e, tr @ [Attempt attempt])
             else api_loop call (Suc attempt) (tr @ [Attempt attempt, Sleep (2 ^ attempt)]))
      else (Inr None, tr))"
  by pat_completeness auto
termination
  by (relation "measure (\<lambda>(call, attempt, tr). max_retries - attempt)") auto

declare api_loop.simps [simp del]

definition make_api_call :: "client \<Rightarrow> prompt \<Rightarrow> (exn + string option) \<times> event list" where
  "make_api_call c p = api_loop (c p) 0 []"

subsection \<open>The mock generators\<close>

definition mock_summary :: "string \<Rightarrow> string" where
  "mock_summary text =
     (let words = str_split text in
      if length words \<le> 20 then text
      else ''This text discusses '' @ str_join '' '' (take 15 words)
             @ ''... [Summary generated offline]'')"

definition mock_metadata :: "string \<Rightarrow> metadata" where
  "mock_metadata text =
     \<lparr>title = None, topics = [''General'', ''Content'', ''Information''], sentiment = ''neutral''\<rparr>"

subsection \<open>\<open>_validate_metadata\<close>\<close>

function pad_topics :: "string list \<Rightarrow> string list" where
  \<comment> \<open>the loop \<open>while len(cleaned_topics) < 3\<close>\<close>
  "pad_topics cleaned_topics =
     (if length cleaned_topics < 3
      then pad_topics (cleaned_topics @ [''Topic '' @ str_nat (length cleaned_topics + 1)])
      else cleaned_topics)"
  by pat_completeness auto
termination
  by (relation "measure (\<lambda>ts. 3 - length ts)") auto

declare pad_topics.simps [simp del]

definition clean_title :: "json \<Rightarrow> string option" where
  \<comment> \<open>the block \<open># Validate title\<close>\<close>
  "clean_title t =
     (case t of
        JStr s \<Rightarrow> if str_strip s \<noteq> [] then Some (str_strip s) else None
      | _ \<Rightarrow> None)"

definition clean_topics :: "json \<Rightarrow> string list" where
  \<comment> \<open>the block \<open># Validate topics\<close>\<close>
  "clean_topics t =
     (case t of
        JList ts \<Rightarrow>
          take 3 (pad_topics (take 3 (filter (\<lambda>s. s \<noteq> []) (map (\<lambda>topic. str_strip (py_str topic)) ts))))
      | _ \<Rightarrow> [''General'', ''Information'', ''Content''])"

definition clean_sentiment :: "json \<Rightarrow> exn + string" where
  \<comment> \<open>the block \<open># Validate sentiment\<close>; \<open>.lower()\<close> exists on strings only\<close>
  "clean_sentiment v =
     (case v of
        JStr s \<Rightarrow>
          if str_lower s \<in> set [''positive'', ''negative'', ''neutral'']
          then Inr (str_lower s) else Inr ''neutral''
      | _ \<Rightarrow> Inl AttributeError)"

definition validate_metadata :: "json \<Rightarrow> exn + metadata" where
  \<comment> \<open>\<open>.get\<close> exists on dicts only\<close>
  "validate_metadata md =
     (case md of
        JDict kvs \<Rightarrow>
          (let t = clean_title (dict_get kvs ''title'' JNull);
               ts = clean_topics (dict_get kvs ''topics'' (JList []))
           in case clean_sentiment (dict_get kvs ''sentiment'' (JStr ''neutral'')) of
                Inl e \<Rightarrow> Inl e
              | Inr s \<Rightarrow> Inr \<lparr>title = t, topics = ts, sentiment = s\<rparr>)
      | _ \<Rightarrow> Inl AttributeError)"

definition as_dict :: "metadata \<Rightarrow> json" where
  \<comment> \<open>the dict that \<open>_validate_metadata\<close> returns, as a decoded value\<close>
  "as_dict m =
     JDict [(''title'', case title m of None \<Rightarrow> JNull | Some t \<Rightarrow> JStr t),
            (''topics'', JList (map JStr (topics m))),
            (''sentiment'', JStr (sentiment m))]"

subsection \<open>\<open>generate_summary\<close> and \<open>extract_metadata\<close>\<close>

definition clip_summary :: "string \<Rightarrow> string" where
  "clip_summary response =
     (let summary = str_strip response;
          sentences = split_on CHR ''.'' [] summary
      in if length sentences > 3 then str_join ''. '' (take 2 sentences) @ ''.'' else summary)"

definition summary_body :: "client \<Rightarrow> string \<Rightarrow> exn + string" where
  \<comment> \<open>the body of the \<open>try\<close> in \<open>generate_summary\<close>\<close>
  "summary_body c text =
     (case fst (make_api_call c (SummaryPrompt (take 2000 text))) of
        Inl e \<Rightarrow> Inl e
      | Inr None \<Rightarrow> Inl AttributeError
      | Inr (Some response) \<Rightarrow> Inr (clip_summary response))"

definition generate_summary :: "client option \<Rightarrow> string \<Rightarrow> exn + string" where
  "generate_summary cl text =
     (case cl of
        None \<Rightarrow> Inr (mock_summary text)
      | Some c \<Rightarrow>
          (case summary_body c text of
             Inl e \<Rightarrow> Inr (mock_summary text)
           | Inr summary \<Rightarrow> Inr summary))"

definition metadata_body :: "(string \<Rightarrow> exn + json) \<Rightarrow> client \<Rightarrow> string \<Rightarrow> exn + metadata" where
  \<comment> \<open>the body of the outer \<open>try\<close> in \<open>extract_metadata\<close>; \<open>loads\<close> is \<open>json.loads\<close>\<close>
  "metadata_body loads c text =
     (case fst (make_api_call c (MetadataPrompt (take 2000 text))) of
        Inl e \<Rightarrow> Inl e
      | Inr None \<Rightarrow> Inl TypeError
      | Inr (Some response) \<Rightarrow>
          (case loads response of
             Inl JSONDecodeError \<Rightarrow> Inr (mock_metadata text)
           | Inl e \<Rightarrow> Inl e
           | Inr md \<Rightarrow> validate_metadata md))"

definition extract_metadata :: "(string \<Rightarrow> exn + json) \<Rightarrow> client option \<Rightarrow> string \<Rightarrow> exn + metadata" where
  "extract_metadata loads cl text =
     (case cl of
        None \<Rightarrow> Inr (mock_metadata text)
      | Some c \<Rightarrow>
          (case metadata_body loads c text of
             Inl e \<Rightarrow> Inr (mock_metadata text)
           | Inr m \<Rightarrow> Inr m))"

section \<open>text\_processor.py\<close>

text \<open>
  The processor holds its stop-word set; the NLTK tokenizer and tagger are external and
  may raise, so they are fields whose result is an exception or a value.
\<close>

record TextProcessor =
  stop_words :: "string set"
  word_tokenize :: "string \<Rightarrow> exn + string list"
  pos_tag :: "string list \<Rightarrow> exn + (string \<times> string) list"

fun count_elem :: "string \<Rightarrow> (string \<times> nat) list \<Rightarrow> (string \<times> nat) list" where
  "count_elem w [] = [(w, 1)]"
| "count_elem w ((v, c) # rest) = (if v = w then (v, c + 1) # rest else (v, c) # count_elem w rest)"

definition Counter :: "string list \<Rightarrow> (string \<times> nat) list" where
  \<comment> \<open>\<open>Counter(xs)\<close>: the counts, keys in first-seen order\<close>
  "Counter xs = foldl (\<lambda>acc w. count_elem w acc) [] xs"

definition most_common :: "int \<Rightarrow> (string \<times> nat) list \<Rightarrow> (string \<times> nat) list" where
  \<comment> \<open>\<open>Counter.most_common(n)\<close>, that is \<open>heapq.nlargest\<close> by count: a stable descending
      sort cut to \<open>n\<close> items, and nothing for \<open>n \<le> 0\<close>\<close>
  "most_common n items =
     (if n \<le> 0 then [] else take (nat n) (sort_key (\<lambda>item. - int (snd item)) items))"

definition slice_to :: "'a list \<Rightarrow> int \<Rightarrow> 'a list" where
  \<comment> \<open>\<open>xs[:k]\<close>; a negative \<open>k\<close> counts from the end\<close>
  "slice_to xs k = (if k < 0 then take (nat (int (length xs) + k)) xs else take (nat k) xs)"

definition startswith :: "string \<Rightarrow> string \<Rightarrow> bool" where
  "startswith s pre = (take (length pre) s = pre)"

definition extract_with_nltk :: "TextProcessor \<Rightarrow> string \<Rightarrow> int \<Rightarrow> exn + string list" where
  "extract_with_nltk tp text top_k =
     (case (case word_tokenize tp (str_lower text) of
              Inl LookupError \<Rightarrow> Inr (findall_words (str_lower text))
            | r \<Rightarrow> r) of
        Inl e \<Rightarrow> Inl e
      | Inr tokens \<Rightarrow>
          (let filtered_tokens =
                 filter (\<lambda>token. token \<notin> stop_words tp \<and> length token > 2 \<and> str_isalpha token) tokens;
               nouns =
                 (case pos_tag tp filtered_tokens of
                    Inr pos_tags \<Rightarrow> map fst (filter (\<lambda>wp. startswith (snd wp) ''NN'') pos_tags)
                  | Inl e \<Rightarrow> filtered_tokens)
           in if nouns = [] then Inr []
              else Inr (map fst (most_common top_k (Counter nouns)))))"

definition word_score :: "string \<Rightarrow> string \<Rightarrow> nat \<Rightarrow> int" where
  \<comment> \<open>the loop body of \<open>_extract_with_regex\<close>; \<open>text\<close> is the variable \<open>text\<close> at that
      point, which the first statement of the function has rebound to \<open>text.lower()\<close>\<close>
  "word_score text word count =
     (let score = int count;
          score = (if length word > 4 then score + 1 else score);
          score = (if endswith word ''ing'' \<or> endswith word ''ed'' \<or> endswith word ''er''
                      \<or> endswith word ''ly'' then score - 1 else score);
          score = (if str_contains (str_title word) text \<or> str_contains (str_upper word) text
                   then score + 1 else score)
      in score)"

definition scored_words :: "TextProcessor \<Rightarrow> string \<Rightarrow> (string \<times> int) list" where
  "scored_words tp text0 =
     (let text = str_lower text0;
          words = findall_letters3 text;
          filtered_words = filter (\<lambda>word. word \<notin> stop_words tp) words;
          word_counts = Counter filtered_words
      in map (\<lambda>wc. (fst wc, word_score text (fst wc) (snd wc))) word_counts)"

definition extract_with_regex :: "TextProcessor \<Rightarrow> string \<Rightarrow> int \<Rightarrow> string list" where
  \<comment> \<open>\<open>scored\<close> has one entry per distinct filtered word: empty exactly when
      \<open>filtered_words\<close> is\<close>
  "extract_with_regex tp text0 top_k =
     (let scored = scored_words tp text0 in
      if scored = [] then []
      else map fst (slice_to (sort_key (\<lambda>ws. - snd ws) scored) top_k))"

definition extract_keywords :: "TextProcessor \<Rightarrow> string \<Rightarrow> int \<Rightarrow> string list" where
  "extract_keywords tp text top_k =
     (if text = [] \<or> str_strip text = [] then []
      else case extract_with_nltk tp text top_k of
             Inr ks \<Rightarrow> ks
           | Inl e \<Rightarrow> extract_with_regex tp text top_k)"

text \<open>Scores are exact reals: a decimal constant stands for the number it denotes.\<close>

definition calculate_confidence_score :: "string \<Rightarrow> string \<Rightarrow> string list \<Rightarrow> real" where
  "calculate_confidence_score text smry kws =
     (let score = 0;
          score = (if text \<noteq> [] \<and> smry \<noteq> [] then score + 0.3 else score);
          text_length = length (str_split text);
          score = (if text_length > 50 then score + 0.2
                   else if text_length > 20 then score + 0.1 else score);
          score = (if kws \<noteq> [] then score + 0.2 * (real (length kws) / 3.0) else score);
          score = (if smry \<noteq> [] \<and> \<not> endswith smry ''[Summary generated offline]''
                   then score + 0.3 else score + 0.1)
      in min 1.0 (max 0.0 score))"

section \<open>main.py\<close>

datatype http_error = HTTPException nat string

record analysis_result = metadata +
  summary :: string
  keywords' :: "string list"

definition analyze_text ::
  "(string \<Rightarrow> exn + json) \<Rightarrow> client option \<Rightarrow> TextProcessor \<Rightarrow> string \<Rightarrow> http_error + analysis_result" where
  \<comment> \<open>the endpoint up to the record it hands to storage\<close>
  "analyze_text loads cl tp request_text =
     (if request_text = [] \<or> str_strip request_text = []
      then Inl (HTTPException 400 ''Empty text input provided'')
      else
        (let text = str_strip request_text in
         case generate_summary cl text of
           Inl e \<Rightarrow> Inl (HTTPException 503 ''LLM service temporarily unavailable. Please try again later.'')
         | Inr s \<Rightarrow>
             (case extract_metadata loads cl text of
                Inl e \<Rightarrow> Inl (HTTPException 503 ''LLM service temporarily unavailable. Please try again later.'')
              | Inr md \<Rightarrow>
                  Inr \<lparr>title = title md, topics = topics md, sentiment = sentiment md,
                       summary = s, keywords' = extract_keywords tp text 3\<rparr>)))"

record Analysis =
  analysis_id :: int
  analysis_text :: string
  analysis_summary :: string
  analysis_title :: "string option"
  analysis_topics :: "string list option"
  analysis_sentiment :: string
  analysis_keywords :: "string list option"
  analysis_created_at :: int

definition given :: "string option \<Rightarrow> bool" where
  \<comment> \<open>the truth value of an optional query parameter\<close>
  "given p = (case p of None \<Rightarrow> False | Some s \<Rightarrow> s \<noteq> [])"

definition or_empty :: "'a list option \<Rightarrow> 'a list" where
  \<comment> \<open>\<open>xs or []\<close>\<close>
  "or_empty xs = (case xs of None \<Rightarrow> [] | Some l \<Rightarrow> l)"

definition count_matches :: "string \<Rightarrow> string list \<Rightarrow> nat" where
  \<comment> \<open>\<open>sum(1 for t in items if q.lower() in t.lower())\<close>\<close>
  "count_matches q items = length (filter (\<lambda>t. str_contains (str_lower q) (str_lower t)) items)"

definition search_confidence ::
  "string option \<Rightarrow> string option \<Rightarrow> string option \<Rightarrow> Analysis \<Rightarrow> real" where
  \<comment> \<open>the loop body of the search endpoint; an absent or empty parameter is false\<close>
  "search_confidence topic keyword sentiment' analysis =
     (let confidence = 0.5;
          confidence =
            (case (topic, analysis_topics analysis) of
               (Some tp, Some ts) \<Rightarrow>
                 if tp \<noteq> [] \<and> ts \<noteq> [] then confidence + real (count_matches tp ts) * 0.2
                 else confidence
             | _ \<Rightarrow> confidence);
          confidence =
            (case (keyword, analysis_keywords analysis) of
               (Some kw, Some ks) \<Rightarrow>
                 if kw \<noteq> [] \<and> ks \<noteq> [] then confidence + real (count_matches kw ks) * 0.15
                 else confidence
             | _ \<Rightarrow> confidence);
          confidence =
            (case sentiment' of
               Some s \<Rightarrow>
                 if s \<noteq> [] \<and> analysis_sentiment analysis = str_lower s then confidence + 0.3
                 else confidence
             | None \<Rightarrow> confidence)
      in min confidence 1.0)"

record SearchResponse =
  response_id :: int
  response_summary :: string
  response_title :: "string option"
  response_topics :: "string list"
  response_sentiment :: string
  response_keywords :: "string list"
  response_created_at :: int
  confidence_score :: real

definition search_response ::
  "string option \<Rightarrow> string option \<Rightarrow> string option \<Rightarrow> Analysis \<Rightarrow> SearchResponse" where
  \<comment> \<open>one iteration of \<open>for analysis in results\<close>\<close>
  "search_response topic keyword sentiment' analysis =
     \<lparr>response_id = analysis_id analysis,
      response_summary = analysis_summary analysis,
      response_title = analysis_title analysis,
      response_topics = or_empty (analysis_topics analysis),
      response_sentiment = analysis_sentiment analysis,
      response_keywords = or_empty (analysis_keywords analysis),
      response_created_at = analysis_created_at analysis,
      confidence_score = search_confidence topic keyword sentiment' analysis\<rparr>"

text \<open>
  The module binds the name \<open>search_analyses\<close> twice: the import from \<open>crud\<close> at the
  top, then \<open>async def search_analyses\<close>, the endpoint itself. The second binding is
  the one in force when the endpoint's body runs, so the call
  \<open>search_analyses(db, topic=topic, keyword=keyword, sentiment=sentiment, limit=limit)\<close>
  reaches the endpoint function, whose first parameter is \<open>topic\<close>: the positional
  \<open>db\<close> and the keyword argument both bind it, and the call raises \<open>TypeError\<close>.
\<close>

datatype binding = Imported_from_crud | Endpoint_function

definition search_analyses_binding :: binding where
  \<comment> \<open>what the global name \<open>search_analyses\<close> denotes once the module is loaded\<close>
  "search_analyses_binding = Endpoint_function"

type_synonym query = "string option \<Rightarrow> string option \<Rightarrow> string option \<Rightarrow> int \<Rightarrow> Analysis list"

definition call_search_analyses ::
  "query \<Rightarrow> string option \<Rightarrow> string option \<Rightarrow> string option \<Rightarrow> int \<Rightarrow> exn + Analysis list" where
  \<comment> \<open>the call in the endpoint's body; \<open>crud\<close> is \<open>crud.search_analyses\<close> on the current
      database, which catches its own failures and returns a list\<close>
  "call_search_analyses crud topic keyword sentiment' limit =
     (case search_analyses_binding of
        Imported_from_crud \<Rightarrow> Inr (crud topic keyword sentiment' limit)
      | Endpoint_function \<Rightarrow> Inl TypeError)"

definition search_endpoint ::
  "query \<Rightarrow> string option \<Rightarrow> string option \<Rightarrow> string option \<Rightarrow> int
     \<Rightarrow> http_error + SearchResponse list" where
  \<comment> \<open>the endpoint \<open>GET /search\<close>: the 400 is re-raised, any other exception becomes a 500\<close>
  "search_endpoint crud topic keyword sentiment' limit =
     (if \<not> given topic \<and> \<not> given keyword \<and> \<not> given sentiment'
      then Inl (HTTPException 400
                  ''At least one search parameter (topic, keyword, or sentiment) is required'')
      else
        (case call_search_analyses crud topic keyword sentiment' limit of
           Inl e \<Rightarrow> Inl (HTTPException 500 ''Internal server error during search'')
         | Inr results \<Rightarrow> Inr (map (search_response topic keyword sentiment') results)))"

section \<open>Concrete collaborators and auxiliary notions\<close>

definition basic_stop_words :: "string set" where
  \<comment> \<open>the built-in stop words of \<open>TextProcessor.__init__\<close>\<close>
  "basic_stop_words =
     set [''the'', ''a'', ''an'', ''and'', ''or'', ''but'', ''in'', ''on'', ''at'',
          ''to'', ''for'', ''of'', ''with'', ''by'']"

definition offline_processor :: TextProcessor where
  \<comment> \<open>a processor without NLTK data: tokenizer and tagger raise\<close>
  "offline_processor =
     \<lparr>stop_words = basic_stop_words,
      word_tokenize = (\<lambda>s. Inl (Exception ''tokenizer unavailable'')),
      pos_tag = (\<lambda>ts. Inl (Exception ''tagger unavailable''))\<rparr>"

definition climate_row :: Analysis where
  "climate_row =
     \<lparr>analysis_id = 1, analysis_text = ''Climate change poses significant challenges.'',
      analysis_summary = ''Climate change poses challenges.'', analysis_title = None,
      analysis_topics = Some [''Climate change'', ''Policy'', ''Energy''],
      analysis_sentiment = ''negative'', analysis_keywords = Some [''climate'', ''challenges''],
      analysis_created_at = 0\<rparr>"

definition sentiments :: "string set" where
  \<comment> \<open>the enumerated sentiment values\<close>
  "sentiments = {''positive'', ''neutral'', ''negative''}"

definition trimmed :: "string \<Rightarrow> bool" where
  \<comment> \<open>a non-empty string without leading or trailing whitespace\<close>
  "trimmed s = (s \<noteq> [] \<and> str_strip s = s)"

definition canonical :: "metadata \<Rightarrow> bool" where
  \<comment> \<open>the canonical shape: title null or trimmed, three trimmed topics, a listed sentiment\<close>
  "canonical m =
     ((case title m of None \<Rightarrow> True | Some t \<Rightarrow> trimmed t)
      \<and> length (topics m) = 3 \<and> list_all trimmed (topics m)
      \<and> sentiment m \<in> sentiments)"

definition failed :: "outcome \<Rightarrow> bool" where
  \<comment> \<open>an attempt that ends in the timeout or in another exception\<close>
  "failed r = (case r of Content s \<Rightarrow> False | _ \<Rightarrow> True)"

definition reply_client :: client where
  "reply_client = (\<lambda>p i. Content '' {...} '')"

definition fixed_loads :: "string \<Rightarrow> exn + json" where
  "fixed_loads = (\<lambda>s. Inr (JDict [(''title'', JStr ''Greeting''), (''topics'', JList [JStr ''hello'']),
                                     (''sentiment'', JStr ''Positive'')]))"

definition healthcare_metadata :: metadata where
  "healthcare_metadata =
     \<lparr>title = Some ''AI in healthcare'', topics = [''AI'', ''Health care'', ''Topic 3''],
      sentiment = ''positive''\<rparr>"

definition fallback_marker :: string where
  \<comment> \<open>the suffix of the mock summary\<close>
  "fallback_marker = ''[Summary generated offline]''"

definition twelve_keywords :: "string list" where
  "twelve_keywords = [''alpha'', ''beta'', ''gamma'', ''delta'', ''epsilon'', ''zeta'', ''eta'', ''theta'',
                      ''iota'', ''kappa'', ''lambda'', ''omega'']"




section \<open>Retry and backoff\<close>

text \<open>
  C3. Claimed: in \<open>_make_api_call\<close> every failed attempt but the last is followed by a
  wait of \<open>2^i\<close> seconds, for a timeout as for any other provider error. The backoff
  statement sits inside the handler of the other errors only: after a timeout on
  attempt 0 the next attempt starts at once, while after another error on attempt 0 the
  call sleeps 1 second first.
\<close>

theorem timeout_skips_backoff:
  "snd (make_api_call (\<lambda>p. case_nat TimedOut (\<lambda>i. Content ''ok'')) (SummaryPrompt ''hello''))
     = [Attempt 0, Attempt 1]
   \<and> snd (make_api_call (\<lambda>p. case_nat (Raised (Exception ''boom'')) (\<lambda>i. Content ''ok''))
            (SummaryPrompt ''hello''))
     = [Attempt 0, Sleep 1, Attempt 1]"
  by (simp add: make_api_call_def api_loop.simps max_retries_def)

section \<open>The metadata validator\<close>

text \<open>
  C4. Claimed: \<open>_validate_metadata\<close> never raises, whatever the decoded structure, also
  for a sentiment that is not a string. The title and the topics are type-checked before
  use, the sentiment is not: on a dict whose sentiment is \<open>null\<close> the call
  \<open>.lower()\<close> raises \<open>AttributeError\<close>.
\<close>

theorem validate_metadata_null_sentiment_raises:
  "validate_metadata
     (JDict [(''title'', JStr ''Report''), (''topics'', JList [JStr ''a'', JStr ''b'', JStr ''c'']),
             (''sentiment'', JNull)]) = Inl AttributeError"
  by (simp add: validate_metadata_def dict_get_def clean_sentiment_def)

section \<open>The regex keyword extractor\<close>

text \<open>
  C5. Claimed: a token gets the capitalization bonus exactly when it occurs capitalized
  or in upper case in the original text. The extractor looks for the capitalized forms
  in \<open>text\<close> after rebinding it to the lower-cased text: on \<open>zebra Paris\<close> the token
  \<open>paris\<close> occurs capitalized in the input, yet scores 2 (count 1, length bonus 1) like
  \<open>zebra\<close>, and \<open>zebra\<close> stays first.
\<close>

theorem capitalization_bonus_missing:
  "scored_words offline_processor ''zebra Paris'' = [(''zebra'', 2), (''paris'', 2)]
   \<and> str_contains (str_title ''paris'') ''zebra Paris''
   \<and> extract_with_regex offline_processor ''zebra Paris'' 1 = [''zebra'']"
  by code_simp

section \<open>The mock summary\<close>

text \<open>
  C7. With the provider client absent, the summary is the input text itself when the
  text has at most 20 whitespace-separated words, and otherwise
  \<open>This text discusses\<close>, the first 15 words joined by single spaces, and the suffix
  \<open>... [Summary generated offline]\<close>.
\<close>

theorem absent_client_summary:
  "generate_summary None text =
     Inr (if length (str_split text) \<le> 20 then text
          else ''This text discusses '' @ str_join '' '' (take 15 (str_split text))
                 @ ''... [Summary generated offline]'')"
  by (simp add: generate_summary_def mock_summary_def Let_def)

theorem absent_client_summary_witness:
  "generate_summary None ''Short text.'' = Inr ''Short text.''
   \<and> generate_summary None ''a b c d e f g h i j k l m n o p q r s t u v'' =
       Inr ''This text discusses a b c d e f g h i j k l m n o... [Summary generated offline]''"
  using absent_client_summary [of "''Short text.''"]
    absent_client_summary [of "''a b c d e f g h i j k l m n o p q r s t u v''"]
  by (simp add: str_split_def isspace_def code_def)

section \<open>The search score\<close>

lemma count_matches_Nil: "count_matches q [] = 0"
  by (simp add: count_matches_def)

text \<open>
  The loop body, had it run, computes the score of the specification: 0.5, plus 0.2 for
  each of the record's topics containing the topic parameter (case-insensitively) when
  a topic is given, plus 0.15 for each of its keywords containing the keyword parameter
  when a keyword is given, plus 0.3 when a sentiment is given and the record's
  sentiment is the lower-cased parameter, capped at 1.
\<close>

lemma search_confidence_formula:
  "search_confidence topic keyword s a =
     min 1 (0.5
            + (if given topic
               then 0.2 * real (count_matches (the topic) (or_empty (analysis_topics a))) else 0)
            + (if given keyword
               then 0.15 * real (count_matches (the keyword) (or_empty (analysis_keywords a))) else 0)
            + (if given s \<and> analysis_sentiment a = str_lower (the s) then 0.3 else 0))"
  by (cases topic; cases keyword; cases s; cases "analysis_topics a"; cases "analysis_keywords a")
     (simp_all add: search_confidence_def given_def or_empty_def count_matches_Nil Let_def
        min.commute mult.commute)

text \<open>No search returns a list of records, whatever the parameters and the database.\<close>

lemma search_endpoint_never_returns:
  "search_endpoint crud topic keyword s limit \<noteq> Inr responses"
  by (simp add: search_endpoint_def call_search_analyses_def search_analyses_binding_def)

text \<open>
  C8. Claimed: every record returned by search carries the score 0.5 + 0.2 per matching
  topic + 0.15 per matching keyword + 0.3 for a matching sentiment, capped at 1. The
  endpoint returns no record at all: with one stored record that matches the topic
  \<open>climate\<close>, the call in its body reaches the endpoint itself instead of the database
  query, raises \<open>TypeError\<close>, and the request is answered with HTTP 500.
\<close>

theorem search_endpoint_answers_500:
  "search_endpoint (\<lambda>topic keyword s limit. [climate_row]) (Some ''climate'') None None 10
     = Inl (HTTPException 500 ''Internal server error during search'')"
  by (simp add: search_endpoint_def call_search_analyses_def search_analyses_binding_def given_def)

section \<open>The analysis pipeline\<close>

lemma length_pad_topics: "length ts \<le> 3 \<Longrightarrow> length (pad_topics ts) = 3"
proof (induction ts rule: pad_topics.induct)
  case (1 ts)
  show ?case
  proof (cases "length ts < 3")
    case True
    with 1 show ?thesis by (subst pad_topics.simps) simp
  next
    case False
    with 1 show ?thesis by (subst pad_topics.simps) simp
  qed
qed

lemma pad_topics_full: "3 \<le> length ts \<Longrightarrow> pad_topics ts = ts"
  by (subst pad_topics.simps) simp

lemma length_clean_topics: "length (clean_topics t) = 3"
  by (cases t) (simp_all add: clean_topics_def length_pad_topics)

lemma clean_sentiment_range: "clean_sentiment v = Inr s \<Longrightarrow> s \<in> sentiments"
  by (cases v) (auto simp: clean_sentiment_def sentiments_def split: if_splits)

lemma validate_metadata_shape:
  assumes "validate_metadata md = Inr m"
  shows "length (topics m) = 3 \<and> sentiment m \<in> sentiments"
proof (cases md)
  case (JDict kvs)
  with assms show ?thesis
    by (auto simp: validate_metadata_def Let_def length_clean_topics
          split: sum.splits dest: clean_sentiment_range)
qed (use assms in \<open>simp_all add: validate_metadata_def\<close>)

lemma mock_metadata_shape:
  "length (topics (mock_metadata text)) = 3 \<and> sentiment (mock_metadata text) \<in> sentiments"
  by (simp add: mock_metadata_def sentiments_def)

lemma metadata_body_cases:
  "metadata_body loads c text = Inr m \<Longrightarrow>
     m = mock_metadata text \<or> (\<exists>md. validate_metadata md = Inr m)"
  by (auto simp: metadata_body_def split: sum.splits option.splits exn.splits)

lemma extract_metadata_shape:
  "\<exists>m. extract_metadata loads cl text = Inr m \<and> length (topics m) = 3 \<and> sentiment m \<in> sentiments"
proof (cases cl)
  case None
  then show ?thesis
    by (simp add: extract_metadata_def mock_metadata_shape)
next
  case (Some c)
  show ?thesis
  proof (cases "metadata_body loads c text")
    case (Inl e)
    with Some show ?thesis
      by (simp add: extract_metadata_def mock_metadata_shape)
  next
    case (Inr m)
    from metadata_body_cases [OF Inr] have "length (topics m) = 3 \<and> sentiment m \<in> sentiments"
      using mock_metadata_shape validate_metadata_shape by blast
    with Some Inr show ?thesis
      by (simp add: extract_metadata_def)
  qed
qed

lemma generate_summary_total: "\<exists>s. generate_summary cl text = Inr s"
  by (cases cl) (simp_all add: generate_summary_def split: sum.splits)

text \<open>
  C1. For every input text that is non-empty after trimming, the analyze operation
  produces a record whose sentiment is one of positive, neutral, negative and whose
  topics list has length 3, whatever the client, the provider's behaviour and the
  decoder do.
\<close>

theorem analyze_text_record_shape:
  assumes "str_strip request_text \<noteq> []"
  shows "\<exists>r. analyze_text loads cl tp request_text = Inr r
            \<and> sentiment r \<in> {''positive'', ''neutral'', ''negative''}
            \<and> length (topics r) = 3"
proof -
  let ?text = "str_strip request_text"
  from assms have ne: "request_text \<noteq> []"
    by (auto simp: str_strip_def)
  obtain s where s: "generate_summary cl ?text = Inr s"
    using generate_summary_total by blast
  obtain m where m: "extract_metadata loads cl ?text = Inr m"
    and shape: "length (topics m) = 3" "sentiment m \<in> sentiments"
    using extract_metadata_shape by blast
  from assms ne s m shape show ?thesis
    by (simp add: analyze_text_def Let_def sentiments_def)
qed

theorem analyze_text_record_shape_witness:
  "str_strip '' Hello world '' \<noteq> []
   \<and> (\<exists>r. analyze_text fixed_loads (Some reply_client) offline_processor '' Hello world '' = Inr r
            \<and> sentiment r \<in> {''positive'', ''neutral'', ''negative''}
            \<and> length (topics r) = 3)"
proof -
  have h: "str_strip '' Hello world '' \<noteq> []"
    by code_simp
  show ?thesis
    using h analyze_text_record_shape [OF h, of fixed_loads "Some reply_client" offline_processor] by simp
qed

lemma api_loop_exhausted:
  "attempt < max_retries \<Longrightarrow> (\<forall>i. attempt \<le> i \<and> i < max_retries \<longrightarrow> failed (call i))
     \<Longrightarrow> \<exists>e. fst (api_loop call attempt tr) = Inl e"
proof (induction call attempt tr rule: api_loop.induct)
  case (1 call attempt tr)
  from "1.prems" have f: "failed (call attempt)" by simp
  have rest: "\<forall>i. Suc attempt \<le> i \<and> i < max_retries \<longrightarrow> failed (call i)"
    using "1.prems" by simp
  show ?case
  proof (cases "call attempt")
    case TimedOut
    show ?thesis
    proof (cases "attempt = max_retries - 1")
      case True
      with "1.prems" TimedOut show ?thesis
        by (subst api_loop.simps) simp
    next
      case False
      with "1.prems" have lt: "Suc attempt < max_retries" by simp
      from "1.IH"(1) [OF "1.prems"(1) TimedOut False lt rest] "1.prems" False TimedOut
      show ?thesis
        by (subst api_loop.simps) simp
    qed
  next
    case (Raised e)
    show ?thesis
    proof (cases "attempt = max_retries - 1")
      case True
      with "1.prems" Raised show ?thesis
        by (subst api_loop.simps) simp
    next
      case False
      with "1.prems" have lt: "Suc attempt < max_retries" by simp
      from "1.IH"(2) [OF "1.prems"(1) Raised False lt rest] "1.prems" False Raised
      show ?thesis
        by (subst api_loop.simps) simp
    qed
  next
    case (Content s)
    with f show ?thesis by (simp add: failed_def)
  qed
qed

lemma make_api_call_exhausted:
  "\<forall>i<max_retries. failed (c p i) \<Longrightarrow> \<exists>e. fst (make_api_call c p) = Inl e"
  unfolding make_api_call_def
  by (rule api_loop_exhausted) (simp_all add: max_retries_def)

text \<open>
  C2. \<open>generate_summary\<close> and \<open>extract_metadata\<close> never raise: they return a value for
  every text, client and decoder. When every attempt of a request fails (timeout or
  other exception) the result is the mock summary, respectively the mock metadata, and
  a reply that does not decode as JSON gives the mock metadata as well.
\<close>

theorem provider_failures_absorbed:
  "(\<exists>s. generate_summary cl text = Inr s)
   \<and> (\<exists>m. extract_metadata loads cl text = Inr m)
   \<and> ((\<forall>i<max_retries. failed (c (SummaryPrompt (take 2000 text)) i))
        \<longrightarrow> generate_summary (Some c) text = Inr (mock_summary text))
   \<and> ((\<forall>i<max_retries. failed (c (MetadataPrompt (take 2000 text)) i))
        \<longrightarrow> extract_metadata loads (Some c) text = Inr (mock_metadata text))
   \<and> (fst (make_api_call c (MetadataPrompt (take 2000 text))) = Inr (Some response)
        \<and> loads response = Inl JSONDecodeError
        \<longrightarrow> extract_metadata loads (Some c) text = Inr (mock_metadata text))"
proof (intro conjI impI)
  show "\<exists>s. generate_summary cl text = Inr s"
    by (rule generate_summary_total)
  show "\<exists>m. extract_metadata loads cl text = Inr m"
    using extract_metadata_shape by blast
next
  assume "\<forall>i<max_retries. failed (c (SummaryPrompt (take 2000 text)) i)"
  then obtain e where "fst (make_api_call c (SummaryPrompt (take 2000 text))) = Inl e"
    using make_api_call_exhausted by blast
  then show "generate_summary (Some c) text = Inr (mock_summary text)"
    by (simp add: generate_summary_def summary_body_def)
next
  assume "\<forall>i<max_retries. failed (c (MetadataPrompt (take 2000 text)) i)"
  then obtain e where "fst (make_api_call c (MetadataPrompt (take 2000 text))) = Inl e"
    using make_api_call_exhausted by blast
  then show "extract_metadata loads (Some c) text = Inr (mock_metadata text)"
    by (simp add: extract_metadata_def metadata_body_def)
next
  assume "fst (make_api_call c (MetadataPrompt (take 2000 text))) = Inr (Some response)
        \<and> loads response = Inl JSONDecodeError"
  then show "extract_metadata loads (Some c) text = Inr (mock_metadata text)"
    by (simp add: extract_metadata_def metadata_body_def)
qed

theorem provider_failures_absorbed_witness:
  "generate_summary (Some (\<lambda>p i. TimedOut)) ''Hello'' = Inr ''Hello''
   \<and> extract_metadata fixed_loads (Some (\<lambda>p i. TimedOut)) ''Hello'' = Inr (mock_metadata ''Hello'')
   \<and> extract_metadata (\<lambda>s. Inl JSONDecodeError) (Some reply_client) ''Hello''
       = Inr (mock_metadata ''Hello'')"
proof -
  have f: "\<forall>i<max_retries. failed ((\<lambda>p i. TimedOut) (SummaryPrompt (take 2000 ''Hello'')) i)"
       "\<forall>i<max_retries. failed ((\<lambda>p i. TimedOut) (MetadataPrompt (take 2000 ''Hello'')) i)"
    by (simp_all add: failed_def)
  have r: "fst (make_api_call reply_client (MetadataPrompt (take 2000 ''Hello''))) = Inr (Some ''{...}'')"
    by code_simp
  have m: "mock_summary ''Hello'' = ''Hello''"
    by code_simp
  show ?thesis
    using f r m
      provider_failures_absorbed
        [of "Some (\<lambda>p i. TimedOut)" "''Hello''" fixed_loads "\<lambda>p i. TimedOut" "''{...}''"]
      provider_failures_absorbed
        [of None "''Hello''" "\<lambda>s. Inl JSONDecodeError" reply_client "''{...}''"]
    by simp
qed

section \<open>Idempotence of the validator\<close>

lemma last_dropWhile: "dropWhile P xs \<noteq> [] \<Longrightarrow> last (dropWhile P xs) = last xs"
  by (induction xs) (auto split: if_splits)

lemma str_strip_idem: "str_strip (str_strip s) = str_strip s"
proof -
  define t where "t = dropWhile isspace s"
  define u where "u = dropWhile isspace (rev t)"
  have a: "dropWhile isspace (rev u) = rev u"
  proof (cases "u = []")
    case True
    then show ?thesis by simp
  next
    case False
    then have tne: "t \<noteq> []" by (auto simp: u_def)
    from False have "last u = last (rev t)"
      unfolding u_def by (rule last_dropWhile)
    with tne have "last u = hd t" by (simp add: last_rev)
    moreover from tne have "\<not> isspace (hd t)"
      unfolding t_def by (rule hd_dropWhile)
    ultimately have "\<not> isspace (hd (rev u))"
      using False by (simp add: hd_rev)
    with False show ?thesis by (cases "rev u") simp_all
  qed
  have b: "dropWhile isspace u = u"
    by (simp add: u_def)
  show ?thesis
    by (simp add: str_strip_def t_def [symmetric] u_def [symmetric] a b)
qed

lemma trimmed_strip: "str_strip s \<noteq> [] \<Longrightarrow> trimmed (str_strip s)"
  by (simp add: trimmed_def str_strip_idem)

lemma trimmed_pad:
  "trimmed (''Topic '' @ str_nat 1)" "trimmed (''Topic '' @ str_nat 2)" "trimmed (''Topic '' @ str_nat 3)"
  by (code_simp+)

lemma pad_topics_trimmed: "list_all trimmed ts \<Longrightarrow> list_all trimmed (pad_topics ts)"
proof (induction ts rule: pad_topics.induct)
  case (1 ts)
  show ?case
  proof (cases "length ts < 3")
    case True
    then have "length ts = 0 \<or> length ts = 1 \<or> length ts = 2" by arith
    then have "trimmed (''Topic '' @ str_nat (length ts + 1))"
      using trimmed_pad by (auto simp: numeral_2_eq_2 numeral_3_eq_3)
    with 1 True show ?thesis
      by (subst pad_topics.simps) simp
  next
    case False
    with 1 show ?thesis by (subst pad_topics.simps) simp
  qed
qed

lemma list_all_take: "list_all P xs \<Longrightarrow> list_all P (take n xs)"
  by (auto simp: list_all_iff dest: in_set_takeD)

lemma clean_topics_trimmed: "list_all trimmed (clean_topics t)"
proof -
  have g: "list_all trimmed [''General'', ''Information'', ''Content'']"
    by code_simp
  have l: "list_all trimmed
             (take 3 (pad_topics (take 3 (filter (\<lambda>s. s \<noteq> [])
                (map (\<lambda>topic. str_strip (py_str topic)) ts)))))" for ts
  proof -
    have "list_all trimmed (filter (\<lambda>s. s \<noteq> []) (map (\<lambda>topic. str_strip (py_str topic)) ts))"
      by (auto simp: list_all_iff trimmed_strip)
    then show ?thesis
      by (intro list_all_take pad_topics_trimmed)
  qed
  show ?thesis
    using g l by (cases t) (simp_all add: clean_topics_def)
qed

lemma clean_title_trimmed: "clean_title t = Some s \<Longrightarrow> trimmed s"
  by (cases t) (auto simp: clean_title_def trimmed_strip split: if_splits)

lemma validate_metadata_canonical:
  assumes "validate_metadata md = Inr m"
  shows "canonical m"
proof (cases md)
  case (JDict kvs)
  with assms show ?thesis
    by (auto simp: validate_metadata_def Let_def canonical_def length_clean_topics
          clean_topics_trimmed
          split: sum.splits option.splits dest: clean_sentiment_range clean_title_trimmed)
qed (use assms in \<open>simp_all add: validate_metadata_def\<close>)

lemma str_lower_sentiments: "s \<in> sentiments \<Longrightarrow> str_lower s = s"
proof -
  have "str_lower ''positive'' = ''positive''" "str_lower ''neutral'' = ''neutral''"
    "str_lower ''negative'' = ''negative''"
    by (code_simp+)
  then show "s \<in> sentiments \<Longrightarrow> str_lower s = s"
    by (auto simp: sentiments_def)
qed

lemma clean_topics_canonical:
  assumes "length ts = 3" "list_all trimmed ts"
  shows "clean_topics (JList (map JStr ts)) = ts"
proof -
  have m: "map ((\<lambda>topic. str_strip (py_str topic)) \<circ> JStr) ts = ts"
    using assms(2) by (induction ts) (simp_all add: py_str_def trimmed_def)
  have f: "filter (\<lambda>s. s \<noteq> []) ts = ts"
    using assms(2) by (induction ts) (simp_all add: trimmed_def)
  show ?thesis
    using assms(1) by (simp add: clean_topics_def m f pad_topics_full)
qed

lemma validate_metadata_fixpoint:
  assumes "canonical m"
  shows "validate_metadata (as_dict m) = Inr m"
proof -
  have t: "clean_title (case title m of None \<Rightarrow> JNull | Some t \<Rightarrow> JStr t) = title m"
    using assms by (cases "title m") (simp_all add: clean_title_def canonical_def trimmed_def)
  have ts: "clean_topics (JList (map JStr (topics m))) = topics m"
    using assms by (simp add: clean_topics_canonical canonical_def)
  have s: "clean_sentiment (JStr (sentiment m)) = Inr (sentiment m)"
    using assms str_lower_sentiments [of "sentiment m"]
    by (auto simp: clean_sentiment_def canonical_def sentiments_def)
  show ?thesis
    by (simp add: validate_metadata_def as_dict_def dict_get_def t ts s)
qed

text \<open>
  C9. Validating a structure in canonical shape (title null or a non-empty trimmed
  string, three non-empty trimmed topics, a listed sentiment) returns that structure;
  and validating the result of a validation again changes nothing, so the validator
  composed with itself is the validator (a raise of the first run included).
\<close>

theorem validate_metadata_idempotent:
  "(canonical m \<longrightarrow> validate_metadata (as_dict m) = Inr m)
   \<and> (case validate_metadata md of Inl e \<Rightarrow> Inl e | Inr m' \<Rightarrow> validate_metadata (as_dict m'))
       = validate_metadata md"
proof (intro conjI impI)
  assume "canonical m"
  then show "validate_metadata (as_dict m) = Inr m"
    by (rule validate_metadata_fixpoint)
next
  show "(case validate_metadata md of Inl e \<Rightarrow> Inl e | Inr m' \<Rightarrow> validate_metadata (as_dict m'))
       = validate_metadata md"
  proof (cases "validate_metadata md")
    case (Inl e)
    then show ?thesis by simp
  next
    case (Inr m')
    then have "canonical m'" by (rule validate_metadata_canonical)
    then have "validate_metadata (as_dict m') = Inr m'" by (rule validate_metadata_fixpoint)
    with Inr show ?thesis by simp
  qed
qed

theorem validate_metadata_idempotent_witness:
  "canonical healthcare_metadata
   \<and> validate_metadata (as_dict healthcare_metadata) = Inr healthcare_metadata"
proof -
  have h: "canonical healthcare_metadata"
    by code_simp
  show ?thesis
    using h validate_metadata_idempotent [of healthcare_metadata JNull] by simp
qed

section \<open>The confidence scorer\<close>

lemma score_unfold:
  "calculate_confidence_score text smry kws =
     min 1 (max 0 ((if text \<noteq> [] \<and> smry \<noteq> [] then 0.3 else 0)
                   + (if length (str_split text) > 50 then 0.2
                      else if length (str_split text) > 20 then 0.1 else 0)
                   + 0.2 * (real (length kws) / 3)
                   + (if smry \<noteq> [] \<and> \<not> endswith smry ''[Summary generated offline]'' then 0.3 else 0.1)))"
  by (cases kws) (simp_all add: calculate_confidence_score_def Let_def)

lemma endswith_nonempty: "endswith s fallback_marker \<Longrightarrow> s \<noteq> []"
  by (auto simp: endswith_def fallback_marker_def)

text \<open>
  With text and keywords fixed, a summary ending with the fallback marker scores
  strictly lower than a non-empty summary not ending with it, unless both scores reach
  the cap of 1; with at most 5 keywords, so for the 0 to 3 keywords the extractor
  delivers, it always scores strictly lower.
\<close>

lemma marked_summary_scores_lower:
  assumes "endswith s1 fallback_marker" and "s2 \<noteq> []" and "\<not> endswith s2 fallback_marker"
  shows "(calculate_confidence_score text s1 kws < calculate_confidence_score text s2 kws
          \<or> (calculate_confidence_score text s1 kws = 1 \<and> calculate_confidence_score text s2 kws = 1))
         \<and> (length kws \<le> 5 \<longrightarrow>
              calculate_confidence_score text s1 kws < calculate_confidence_score text s2 kws)"
proof -
  define x :: real where
    "x = (if text \<noteq> [] then 0.3 else 0)
         + (if length (str_split text) > 50 then 0.2
            else if length (str_split text) > 20 then 0.1 else 0)
         + 0.2 * (real (length kws) / 3)"
  have x0: "0 \<le> x" by (simp add: x_def)
  from assms(1) have ne1: "s1 \<noteq> []" by (rule endswith_nonempty)
  have e1: "calculate_confidence_score text s1 kws = min 1 (x + 0.1)"
    using assms(1) ne1 x0 by (simp add: score_unfold x_def fallback_marker_def)
  have e2: "calculate_confidence_score text s2 kws = min 1 (x + 0.3)"
    using assms(2,3) x0 by (simp add: score_unfold x_def fallback_marker_def)
  have small: "x + 0.1 < 1" if "length kws \<le> 5"
  proof -
    from that have "real (length kws) \<le> 5" by simp
    then have "0.2 * (real (length kws) / 3) \<le> 1 / 3" by simp
    then show ?thesis by (simp add: x_def)
  qed
  show ?thesis
    using small by (auto simp: e1 e2 min_def)
qed

text \<open>
  C6. Claimed: the summary ending with the fallback marker always gets the strictly
  lower score. The keyword term \<open>0.2 * (len(keywords) / 3.0)\<close> is described as
  \<open>Up to 0.2 for 3 keywords\<close> but is not capped: with 12 keywords it is 0.8, both sums
  pass 1, and both summaries get the score 1.
\<close>

theorem fallback_summary_not_strictly_lower:
  "endswith ''AI helps doctors. [Summary generated offline]'' fallback_marker
   \<and> \<not> endswith ''AI helps doctors.'' fallback_marker
   \<and> calculate_confidence_score ''Short.'' ''AI helps doctors. [Summary generated offline]''
         twelve_keywords = 1
   \<and> calculate_confidence_score ''Short.'' ''AI helps doctors.'' twelve_keywords = 1"
proof -
  have a: "endswith ''AI helps doctors. [Summary generated offline]'' fallback_marker"
    by code_simp
  have b: "\<not> endswith ''AI helps doctors.'' fallback_marker"
    by code_simp
  have n: "length (str_split ''Short.'') = 1" by code_simp
  have k: "length twelve_keywords = 12" by (simp add: twelve_keywords_def)
  show ?thesis
    using a b by (simp add: score_unfold n k fallback_marker_def)
qed

section \<open>The keyword extractor\<close>

lemma code_char_of: "n < 256 \<Longrightarrow> code (char_of n) = n"
  by (simp add: code_def)

lemma code_less: "code c < 256"
  unfolding code_def by (cases c) simp

lemma lower_char_not_upper: "\<not> isupper_char (lower_char c)"
proof (cases "isupper_char c")
  case True
  then have "code c + 32 < 256" "97 \<le> code c + 32"
    by (auto simp: isupper_char_def is_ascii_upper_def)
  with True show ?thesis
    by (auto simp: lower_char_def isupper_char_def is_ascii_upper_def code_char_of)
next
  case False
  then show ?thesis by (simp add: lower_char_def)
qed





lemma runs_chars: "w \<in> set (runs P cur s) \<Longrightarrow> set w \<subseteq> set cur \<union> set s"
  by (induction P cur s rule: runs.induct) (auto split: if_splits)















text \<open>
  The capitalization test of the regex tier never succeeds: its tokens are lower-case
  ASCII letters, their capitalized forms start with an upper-case letter, and the text
  they are looked up in has been lower-cased.
\<close>

lemma upper_char_upper: "is_ascii_lower c \<Longrightarrow> isupper_char (upper_char c)"
  by (auto simp: upper_char_def is_ascii_lower_def isupper_char_def is_ascii_upper_def code_char_of)

lemma str_contains_chars: "str_contains sub s \<Longrightarrow> set sub \<subseteq> set s"
proof (induction sub s rule: str_contains.induct)
  case (1 sub)
  then show ?case by simp
next
  case (2 sub c cs)
  from "2.prems" consider "take (length sub) (c # cs) = sub" | "str_contains sub cs"
    by auto
  then show ?case
  proof cases
    case 1
    then have "set sub \<subseteq> set (c # cs)"
      by (metis set_take_subset)
    then show ?thesis .
  next
    case 2
    with "2.IH" show ?thesis by auto
  qed
qed

lemma lowered_token_ascii_lower:
  assumes "w \<in> set (findall_letters3 (str_lower s))" and "c \<in> set w"
  shows "is_ascii_lower c"
proof -
  from assms(1) have r: "w \<in> set (runs is_word_char [] (str_lower s))"
    and l: "list_all is_ascii_letter w"
    by (auto simp: findall_letters3_def)
  from r assms(2) have "c \<in> set (str_lower s)"
    using runs_chars [of w is_word_char "[]" "str_lower s"] by auto
  then have "\<not> isupper_char c"
    by (auto simp: str_lower_def lower_char_not_upper)
  moreover from l assms(2) have "is_ascii_letter c"
    by (simp add: list_all_iff)
  ultimately show ?thesis
    by (auto simp: is_ascii_letter_def isupper_char_def)
qed

lemma capitalized_forms_absent:
  assumes "w \<in> set (findall_letters3 (str_lower s))"
  shows "\<not> str_contains (str_title w) (str_lower s) \<and> \<not> str_contains (str_upper w) (str_lower s)"
proof -
  from assms have "3 \<le> length w" by (simp add: findall_letters3_def)
  then obtain c cs where w: "w = c # cs" by (cases w) auto
  with assms have "is_ascii_lower c"
    using lowered_token_ascii_lower [of w s c] by simp
  then have u: "isupper_char (upper_char c)" by (rule upper_char_upper)
  have no: "\<forall>d\<in>set (str_lower s). \<not> isupper_char d"
    by (auto simp: str_lower_def lower_char_not_upper)
  have "upper_char c \<in> set (str_title w)" "upper_char c \<in> set (str_upper w)"
    by (simp_all add: w str_upper_def)
  with u no show ?thesis
    using str_contains_chars by blast
qed

lemma word_score_without_bonus:
  assumes "w \<in> set (findall_letters3 (str_lower s))"
  shows "word_score (str_lower s) w n =
           int n + (if length w > 4 then 1 else 0)
           - (if endswith w ''ing'' \<or> endswith w ''ed'' \<or> endswith w ''er'' \<or> endswith w ''ly''
              then 1 else 0)"
  using capitalized_forms_absent [OF assms] by (simp add: word_score_def Let_def)



end
